theory Spec2Isabelle
  imports Complex_Main "HOL-Library.Multiset"
begin

section \<open>Python values shared by the models\<close>

text \<open>
  Exceptions of the Python sources are values: a computation that can raise returns
  \<open>py_error + 'a\<close>, with \<open>Inl\<close> for the exception.
\<close>

datatype py_error =
    ZeroDivisionError
  | ValueError
  | TypeError
  | IndexError
  | AssertionError
  | AttributeError
  | FileNotFoundError string
  | UnboundLocalError string

text \<open>
  A Python or numpy float is a real number or one of the three special values. The finite
  values are exact reals: rounding is not modelled. The special values are kept because
  the sources compare against \<open>float('inf')\<close> and because numpy divides by zero without
  raising.
\<close>

datatype pyfloat = NaN | NegInf | Fin real | PosInf

text \<open>Python's \<open><\<close> on floats: every comparison with NaN is false.\<close>

fun f_lt :: "pyfloat \<Rightarrow> pyfloat \<Rightarrow> bool" where
  "f_lt NaN _ = False"
| "f_lt _ NaN = False"
| "f_lt NegInf NegInf = False"
| "f_lt NegInf _ = True"
| "f_lt (Fin a) NegInf = False"
| "f_lt (Fin a) (Fin b) = (a < b)"
| "f_lt (Fin a) PosInf = True"
| "f_lt PosInf _ = False"

definition f_gt :: "pyfloat \<Rightarrow> pyfloat \<Rightarrow> bool" where
  "f_gt a b = f_lt b a"

text \<open>numpy's float division of two finite values: no exception, \<open>inf\<close> or \<open>nan\<close> at zero.\<close>

definition np_divide :: "real \<Rightarrow> real \<Rightarrow> pyfloat" where
  "np_divide a b =
     (if b = 0 then (if a = 0 then NaN else if 0 < a then PosInf else NegInf)
      else Fin (a / b))"



text \<open>A float times a finite factor, as \<open>np.array(x) * 10\<close> computes it.\<close>

definition np_times :: "real \<Rightarrow> pyfloat \<Rightarrow> pyfloat" where
  "np_times c v =
     (case v of
        NaN \<Rightarrow> NaN
      | Fin r \<Rightarrow> Fin (c * r)
      | PosInf \<Rightarrow> (if 0 < c then PosInf else if c < 0 then NegInf else NaN)
      | NegInf \<Rightarrow> (if 0 < c then NegInf else if c < 0 then PosInf else NaN))"

text \<open>
  \<open>np.nanmean\<close> of a list of floats: the mean of the entries that are not NaN, and NaN
  when there is none (or when both infinities occur).
\<close>

fun fin_value :: "pyfloat \<Rightarrow> real" where
  "fin_value (Fin r) = r"
| "fin_value _ = 0"

definition np_nanmean :: "pyfloat list \<Rightarrow> pyfloat" where
  "np_nanmean xs =
     (let ys = filter (\<lambda>v. v \<noteq> NaN) xs
      in if ys = [] then NaN
         else if PosInf \<in> set ys \<and> NegInf \<in> set ys then NaN
         else if PosInf \<in> set ys then PosInf
         else if NegInf \<in> set ys then NegInf
         else Fin (sum_list (map fin_value ys) / real (length ys)))"

section \<open>Arguments, data and collaborators\<close>

text \<open>
  The fields of the \<open>args\<close> namespace that the modelled code reads. A path or a
  method name that may be \<open>None\<close> is an option; \<open>num_tasks\<close> is the value that
  run_training stores into \<open>args\<close> from the loaded data before it is used.
\<close>

record args =
  dataset_type :: string
  confidence :: "string option"
  ensemble_size :: int
  epochs :: int
  minimize_score :: bool
  batch_size :: int
  log_frequency :: int
  class_balance :: bool
  data_path :: string
  separate_val_path :: "string option"
  separate_test_path :: "string option"
  split_type :: string
  split_sizes :: "real \<times> real \<times> real"
  seed :: int
  checkpoint_paths :: "string list option"
  num_tasks :: nat
  last_hidden_size :: nat

text \<open>Python's truth value of an optional string: \<open>None\<close> and the empty string are false.\<close>

definition truthy :: "string option \<Rightarrow> bool" where
  "truthy s = (case s of None \<Rightarrow> False | Some v \<Rightarrow> v \<noteq> [])"

text \<open>
  A molecule datapoint with the two fields the code reads. Targets may be missing
  (\<open>None\<close>).
\<close>

record datapoint =
  smiles :: string
  targets :: "real option list"

type_synonym matrix = "real list list"

text \<open>The two arrays a fitted \<open>StandardScaler\<close> holds.\<close>

record standard_scaler =
  means :: "real list"
  stds :: "real list"

text \<open>
  The collaborators that the sources import and that are not part of the modelled files:
  data loading and splitting, the target scaler, the network and its optimiser (one value
  of type \<open>'m\<close> holds the model together with its optimiser and scheduler), prediction,
  scoring, fingerprints and Gaussian-process regression. Each is a function with the
  input and output the call sites use; nothing is assumed about its values unless a
  theorem says so. Datasets are lists of object addresses where the code shares or
  mutates the datapoints, and lists of datapoints where it only reads them.
  \<open>gaussian_confidence\<close> stands for lines 344 to 368 and \<open>gaussian_classification\<close> for
  lines 396 to 427: Gaussian-process regression on the averaged hidden vectors and the
  logarithmic rescaling of its variances.
\<close>

record 'm collaborators =
  get_data :: "string \<Rightarrow> nat list"
  split_data ::
    "nat list \<Rightarrow> string \<Rightarrow> real \<times> real \<times> real \<Rightarrow> int \<Rightarrow> nat list \<times> nat list \<times> nat list"
  scaler_fit :: "real option list list \<Rightarrow> standard_scaler"
  scaler_transform :: "standard_scaler \<Rightarrow> real option list list \<Rightarrow> real option list list"
  shuffle :: "datapoint list \<Rightarrow> datapoint list"
  build_model :: "nat \<Rightarrow> 'm"
  load_pretrained :: "string \<Rightarrow> 'm"
  fit_batch :: "'m \<Rightarrow> datapoint list \<Rightarrow> 'm"
  exponential_lr_step :: "'m \<Rightarrow> 'm"
  evaluate :: "'m \<Rightarrow> datapoint list \<Rightarrow> pyfloat list"
  predict :: "'m \<Rightarrow> datapoint list \<Rightarrow> matrix"
  predict_last_hidden :: "'m \<Rightarrow> datapoint list \<Rightarrow> matrix"
  evaluate_predictions :: "matrix \<Rightarrow> real option list list \<Rightarrow> pyfloat list"
  morgan_fingerprint :: "string \<Rightarrow> real list"
  canonical_smiles :: "string \<Rightarrow> string"
  gaussian_confidence ::
    "matrix \<Rightarrow> matrix \<Rightarrow> real option list list \<Rightarrow> real option list list \<Rightarrow> standard_scaler
       \<Rightarrow> pyfloat list \<times> pyfloat list"
  gaussian_classification ::
    "matrix \<Rightarrow> matrix \<Rightarrow> real option list list \<Rightarrow> real option list list
       \<Rightarrow> pyfloat list \<times> pyfloat list"

section \<open>train.py: one epoch of training\<close>

text \<open>
  A slice \<open>xs[start:stop]\<close> with Python's treatment of negative and out-of-range
  bounds.
\<close>

definition py_slice :: "'a list \<Rightarrow> int \<Rightarrow> int \<Rightarrow> 'a list" where
  "py_slice xs start stop =
     (let n = int (length xs);
          s = (if start < 0 then max 0 (start + n) else min start n);
          e = (if stop < 0 then max 0 (stop + n) else min stop n)
      in take (nat (e - s)) (drop (nat s) xs))"

text \<open>The values of \<open>range(start, stop, step)\<close> for a nonzero step.\<close>

definition py_range :: "int \<Rightarrow> int \<Rightarrow> int \<Rightarrow> int list" where
  "py_range start stop step =
     (if 0 < step
      then map (\<lambda>k. start + int k * step) [0..<nat ((stop - start + step - 1) div step)]
      else map (\<lambda>k. start + int k * step) [0..<nat ((start - stop - step - 1) div (- step))])"

text \<open>\<open>d.targets[0]\<close>: IndexError on a datapoint without targets.\<close>

definition first_target :: "datapoint \<Rightarrow> py_error + real option" where
  "first_target d = (case targets d of [] \<Rightarrow> Inl IndexError | t # _ \<Rightarrow> Inr t)"

text \<open>
  The comprehension \<open>[d for d in data if d.targets[0] == v]\<close>: it raises at the first
  datapoint without targets.
\<close>

fun with_first_target :: "real \<Rightarrow> datapoint list \<Rightarrow> py_error + datapoint list" where
  "with_first_target v [] = Inr []"
| "with_first_target v (d # ds) =
     (case first_target d of
        Inl e \<Rightarrow> Inl e
      | Inr t \<Rightarrow>
          (case with_first_target v ds of
             Inl e \<Rightarrow> Inl e
           | Inr r \<Rightarrow> Inr (if t = Some v then d # r else r)))"

text \<open>
  The \<open>while True\<close> loop of the class-balancing branch (lines 59 to 72): batches of
  positives and negatives are appended until one of the two slices is empty.
\<close>

function balance_loop ::
  "int \<Rightarrow> datapoint list \<Rightarrow> datapoint list \<Rightarrow> nat \<Rightarrow> nat \<Rightarrow> datapoint list \<Rightarrow> datapoint list"
where
  "balance_loop iter_size pos neg pos_index neg_index new_data =
     (let pos_size = iter_size div 2;
          new_pos = py_slice pos (int pos_index) (int pos_index + pos_size);
          new_neg = py_slice neg (int neg_index)
                      (int neg_index + iter_size - int (length new_pos))
      in if length new_pos = 0 \<or> length new_neg = 0 then new_data
         else
           let new_pos2 =
                 (if int (length new_pos) + int (length new_neg) < iter_size
                  then py_slice pos (int pos_index)
                         (int pos_index + iter_size - int (length new_neg))
                  else new_pos)
           in balance_loop iter_size pos neg
                (pos_index + length new_pos2) (neg_index + length new_neg)
                (new_data @ new_pos2 @ new_neg))"
  by pat_completeness auto

termination balance_loop
proof (relation "measure (\<lambda>(iter_size, pos, neg, pos_index, neg_index, new_data).
                            length neg - neg_index)", goal_cases)
  case 1
  show ?case by simp
next
  case (2 iter_size pos neg pos_index neg_index new_data pos_size new_pos new_neg new_pos2)
  from 2 have ne: "new_neg \<noteq> []" by simp
  have "neg_index < length neg"
  proof (rule ccontr)
    assume "\<not> neg_index < length neg"
    then have "py_slice neg (int neg_index) e = []" for e
      by (simp add: py_slice_def Let_def min_def)
    with ne 2 show False by simp
  qed
  then show ?case using ne by (cases new_neg) simp_all
qed

text \<open>What one call of \<open>train\<close> leaves behind.\<close>

record 'm train_state =
  model :: 'm
  data_order :: "datapoint list"
  n_iter :: int
  iter_count :: int
  trained_on :: "datapoint list list"
  logged_at :: "int list"

text \<open>
  The batch loop (lines 78 to 146) over the values of
  \<open>range(0, num_iters, iter_size)\<close>. \<open>trained_on\<close> collects the batches given to the
  model, \<open>logged_at\<close> the values of \<open>n_iter\<close> at which a log line is written.
\<close>

fun train_loop ::
  "'m collaborators \<Rightarrow> args \<Rightarrow> datapoint list \<Rightarrow> int list \<Rightarrow> 'm train_state
     \<Rightarrow> py_error + 'm train_state"
where
  "train_loop env a dat [] st = Inr st"
| "train_loop env a dat (i # rest) st =
     (if i + batch_size a > int (length dat) then Inr st
      else
        let mol_batch = py_slice dat i (i + batch_size a);
            st1 = st\<lparr>model := fit_batch env (model st) mol_batch,
                      iter_count := iter_count st + int (length mol_batch),
                      n_iter := n_iter st + int (length mol_batch),
                      trained_on := trained_on st @ [mol_batch]\<rparr>
        in if batch_size a = 0 \<or> log_frequency a = 0 then Inl ZeroDivisionError
           else if (n_iter st1 div batch_size a) mod log_frequency a = 0
           then (if iter_count st1 = 0 then Inl ZeroDivisionError
                 else train_loop env a dat rest
                        (st1\<lparr>iter_count := 0, logged_at := logged_at st1 @ [n_iter st1]\<rparr>))
           else train_loop env a dat rest st1)"

text \<open>
  \<open>train\<close> (lines 16 to 148). The dataset is shuffled in place, so the new order is part
  of the result; the class-balancing branch rebinds the local name only. The value the
  Python function returns is the field \<open>n_iter\<close> of the result.
\<close>

definition train ::
  "'m collaborators \<Rightarrow> args \<Rightarrow> 'm \<Rightarrow> datapoint list \<Rightarrow> int \<Rightarrow> py_error + 'm train_state"
where
  "train env a m dat n =
     (let shuffled = shuffle env dat;
          st0 = \<lparr>model = m, data_order = shuffled, n_iter = n, iter_count = 0,
                 trained_on = [], logged_at = []\<rparr>;
          balanced =
            (if class_balance a then
               (case shuffled of
                  [] \<Rightarrow> Inl IndexError
                | d0 # _ \<Rightarrow>
                    if length (targets d0) \<noteq> 1 then Inl AssertionError
                    else
                      (case with_first_target 1 shuffled of
                         Inl e \<Rightarrow> Inl e
                       | Inr pos \<Rightarrow>
                           (case with_first_target 0 shuffled of
                              Inl e \<Rightarrow> Inl e
                            | Inr neg \<Rightarrow> Inr (balance_loop (batch_size a) pos neg 0 0 []))))
             else Inr shuffled)
      in case balanced of
           Inl e \<Rightarrow> Inl e
         | Inr dat2 \<Rightarrow>
             if batch_size a = 0 then Inl ZeroDivisionError
             else
               let num_iters = int (length dat2) div batch_size a * batch_size a
               in train_loop env a dat2 (py_range 0 num_iters (batch_size a)) st0)"

section \<open>run_training.py: data selection and target scaling\<close>

text \<open>
  The datapoints are objects: a heap maps each address to its datapoint, and a dataset is
  the list of the addresses it holds.
\<close>

type_synonym heap = "nat \<Rightarrow> datapoint"

definition dataset :: "heap \<Rightarrow> nat list \<Rightarrow> datapoint list" where
  "dataset h ids = map h ids"

text \<open>
  Modelled from the spec: \<open>MoleculeDataset.smiles\<close>, \<open>MoleculeDataset.targets\<close> and
  \<open>MoleculeDataset.set_targets\<close> belong to \<open>chemprop.data\<close>, which is not among the
  sources. They read the field of every datapoint of the dataset, in order, and
  \<open>set_targets\<close> replaces the targets of the i-th datapoint by the i-th given row; it
  asserts that there are as many rows as datapoints.
\<close>

definition dataset_smiles :: "heap \<Rightarrow> nat list \<Rightarrow> string list" where
  "dataset_smiles h ids = map (\<lambda>i. smiles (h i)) ids"

definition dataset_targets :: "heap \<Rightarrow> nat list \<Rightarrow> real option list list" where
  "dataset_targets h ids = map (\<lambda>i. targets (h i)) ids"

fun write_targets :: "heap \<Rightarrow> nat list \<Rightarrow> real option list list \<Rightarrow> heap" where
  "write_targets h (i # ids) (t # ts) = write_targets (h(i := (h i)\<lparr>targets := t\<rparr>)) ids ts"
| "write_targets h _ _ = h"

definition set_targets :: "heap \<Rightarrow> nat list \<Rightarrow> real option list list \<Rightarrow> py_error + heap" where
  "set_targets h ids ts =
     (if length ids \<noteq> length ts then Inl AssertionError else Inr (write_targets h ids ts))"

text \<open>The value of an optional path that is known to be present.\<close>

definition path_of :: "string option \<Rightarrow> string" where
  "path_of p = (case p of None \<Rightarrow> [] | Some s \<Rightarrow> s)"

text \<open>
  Lines 86 to 103: the training, validation and test sets, from the loaded data and the
  separately given files.
\<close>

definition select_data ::
  "'m collaborators \<Rightarrow> args \<Rightarrow> nat list \<Rightarrow> nat list \<times> nat list \<times> nat list"
where
  "select_data env a dat =
     (if truthy (separate_val_path a) \<and> truthy (separate_test_path a) then
        (dat, get_data env (path_of (separate_val_path a)),
              get_data env (path_of (separate_test_path a)))
      else if truthy (separate_val_path a) then
        (case split_data env dat (split_type a) (8 / 10, 2 / 10, 0) (seed a) of
           (train_data, _, test_data) \<Rightarrow>
             (train_data, get_data env (path_of (separate_val_path a)), test_data))
      else if truthy (separate_test_path a) then
        (case split_data env dat (split_type a) (8 / 10, 2 / 10, 0) (seed a) of
           (train_data, val_data, _) \<Rightarrow>
             (train_data, val_data, get_data env (path_of (separate_test_path a))))
      else split_data env dat (split_type a) (split_sizes a) (seed a))"

text \<open>
  Lines 156 to 164: in a regression run the scaler is fitted on the training targets and
  the training targets are overwritten by their transformed values; otherwise the scaler
  is \<open>None\<close>. The result is the new heap, the scaler, and \<open>train_smiles\<close>, which is
  bound in the regression branch only.
\<close>

definition scale_targets ::
  "'m collaborators \<Rightarrow> args \<Rightarrow> heap \<Rightarrow> nat list
     \<Rightarrow> py_error + heap \<times> standard_scaler option \<times> string list option"
where
  "scale_targets env a h train_data =
     (if dataset_type a = ''regression'' then
        let train_smiles = dataset_smiles h train_data;
            train_targets = dataset_targets h train_data;
            scaler = scaler_fit env train_targets;
            scaled_targets = scaler_transform env scaler train_targets
        in (case set_targets h train_data scaled_targets of
              Inl e \<Rightarrow> Inl e
            | Inr h2 \<Rightarrow> Inr (h2, Some scaler, Some train_smiles))
      else Inr (h, None, None))"

section \<open>run_training.py: the ensemble loop\<close>

text \<open>
  \<open>s += p\<close> and \<open>s / n\<close> on two-dimensional arrays. \<open>predict\<close> returns one row
  for each datapoint and one column for each task, the shape of the accumulator; an
  operand of any other shape is the ValueError of arrays that cannot be added (numpy
  would still add an operand with a dimension of size one, which \<open>predict\<close> does
  not return).
\<close>

definition np_iadd :: "matrix \<Rightarrow> matrix \<Rightarrow> py_error + matrix" where
  "np_iadd s p =
     (if map length p = map length s then Inr (map2 (map2 (+)) s p) else Inl ValueError)"

definition np_zeros :: "nat \<Rightarrow> nat \<Rightarrow> matrix" where
  "np_zeros rows cols = replicate rows (replicate cols 0)"

definition np_scale_down :: "matrix \<Rightarrow> real \<Rightarrow> matrix" where
  "np_scale_down s n = map (map (\<lambda>v. v / n)) s"

text \<open>
  What the loop over the ensemble carries from one member to the next. The array
  \<open>all_test_preds\<close> of shape (test points, tasks, members) is kept as the list of its
  slices along the last axis, one matrix for each member. The two accumulators of hidden
  vectors are bound only if line 176 found \<open>args.confidence == "gaussian"\<close>.
  \<open>member_test_preds\<close> lists what \<open>predict\<close> returned for each member, in order.
\<close>

record 'm run_state =
  train_order :: "datapoint list"
  files :: "nat \<rightharpoonup> 'm"
  sum_test_preds :: matrix
  all_test_preds :: "matrix list"
  sum_last_hidden :: "matrix option"
  sum_last_hidden_test :: "matrix option"
  member_test_preds :: "matrix list"

text \<open>
  The state of the loop over the epochs of one member. \<open>val_history\<close> lists, for each
  epoch so far, the model after the epoch with the averaged validation score that line
  247 logs for it.
\<close>

record 'm epoch_state =
  cur_model :: 'm
  cur_data :: "datapoint list"
  cur_n_iter :: int
  best_score :: pyfloat
  best_epoch :: nat
  ckpt_files :: "nat \<rightharpoonup> 'm"
  val_history :: "('m \<times> pyfloat) list"

text \<open>The test of lines 260 and 261 and the starting value of line 216.\<close>

definition improves :: "args \<Rightarrow> pyfloat \<Rightarrow> pyfloat \<Rightarrow> bool" where
  "improves a avg_val_score best \<longleftrightarrow>
     minimize_score a \<and> f_lt avg_val_score best
     \<or> \<not> minimize_score a \<and> f_gt avg_val_score best"

definition worst_score :: "args \<Rightarrow> pyfloat" where
  "worst_score a = (if minimize_score a then PosInf else NegInf)"

text \<open>
  \<open>save_checkpoint\<close> and \<open>load_checkpoint\<close> on the file \<open>model.pt\<close> of member
  \<open>idx\<close>: the store maps the member to the model last saved for it.
\<close>

definition save_checkpoint :: "(nat \<rightharpoonup> 'm) \<Rightarrow> nat \<Rightarrow> 'm \<Rightarrow> (nat \<rightharpoonup> 'm)" where
  "save_checkpoint fs idx m = fs(idx \<mapsto> m)"

definition load_checkpoint :: "(nat \<rightharpoonup> 'm) \<Rightarrow> nat \<Rightarrow> py_error + 'm" where
  "load_checkpoint fs idx =
     (case fs idx of None \<Rightarrow> Inl (FileNotFoundError ''model.pt'') | Some m \<Rightarrow> Inr m)"

text \<open>Lines 218 to 264: the epochs of one member.\<close>

fun epoch_loop ::
  "'m collaborators \<Rightarrow> args \<Rightarrow> datapoint list \<Rightarrow> nat \<Rightarrow> nat list \<Rightarrow> 'm epoch_state
     \<Rightarrow> py_error + 'm epoch_state"
where
  "epoch_loop env a val_data idx [] st = Inr st"
| "epoch_loop env a val_data idx (epoch # rest) st =
     (case train env a (cur_model st) (cur_data st) (cur_n_iter st) of
        Inl e \<Rightarrow> Inl e
      | Inr ts \<Rightarrow>
          let m = exponential_lr_step env (model ts);
              val_scores = evaluate env m val_data;
              avg_val_score = np_nanmean val_scores;
              st1 = st\<lparr>cur_model := m, cur_data := data_order ts, cur_n_iter := n_iter ts,
                        val_history := val_history st @ [(m, avg_val_score)]\<rparr>
          in if improves a avg_val_score (best_score st)
             then epoch_loop env a val_data idx rest
                    (st1\<lparr>best_score := avg_val_score, best_epoch := epoch,
                         ckpt_files := save_checkpoint (ckpt_files st) idx m\<rparr>)
             else epoch_loop env a val_data idx rest st1)"

text \<open>Lines 190 to 197: the model a member starts from.\<close>

definition initial_model :: "'m collaborators \<Rightarrow> args \<Rightarrow> nat \<Rightarrow> py_error + 'm" where
  "initial_model env a idx =
     (case checkpoint_paths a of
        None \<Rightarrow> Inr (build_model env idx)
      | Some ps \<Rightarrow>
          if idx < length ps then Inr (load_pretrained env (ps ! idx)) else Inl IndexError)"

text \<open>
  Lines 205 to 270: the initial checkpoint, the epochs, and the reload of the checkpoint
  for the evaluation on the test set. The result is the reloaded model with the state of
  the epoch loop.
\<close>

definition train_member ::
  "'m collaborators \<Rightarrow> args \<Rightarrow> datapoint list \<Rightarrow> nat \<Rightarrow> datapoint list \<Rightarrow> (nat \<rightharpoonup> 'm)
     \<Rightarrow> py_error + 'm \<times> 'm epoch_state"
where
  "train_member env a val_data idx train_data fs =
     (case initial_model env a idx of
        Inl e \<Rightarrow> Inl e
      | Inr m0 \<Rightarrow>
          let st0 = \<lparr>cur_model = m0, cur_data = train_data, cur_n_iter = 0,
                     best_score = worst_score a, best_epoch = 0,
                     ckpt_files = save_checkpoint fs idx m0, val_history = []\<rparr>
          in (case epoch_loop env a val_data idx [0..<nat (epochs a)] st0 of
                Inl e \<Rightarrow> Inl e
              | Inr st \<Rightarrow>
                  (case load_checkpoint (ckpt_files st) idx of
                     Inl e \<Rightarrow> Inl e
                   | Inr m \<Rightarrow> Inr (m, st))))"


text \<open>Lines 287 to 289: the two accumulators of test predictions.\<close>

definition add_test_preds :: "'m run_state \<Rightarrow> nat \<Rightarrow> matrix \<Rightarrow> py_error + 'm run_state" where
  "add_test_preds rs idx test_preds =
     (if length test_preds \<noteq> 0 then
        (case np_iadd (sum_test_preds rs) test_preds of
           Inl e \<Rightarrow> Inl e
         | Inr s \<Rightarrow>
             if idx < length (all_test_preds rs)
             then Inr (rs\<lparr>sum_test_preds := s,
                          all_test_preds := (all_test_preds rs)[idx := test_preds]\<rparr>)
             else Inl IndexError)
      else Inr rs)"

text \<open>Lines 291 to 310: the accumulators of hidden vectors, for the Gaussian method.\<close>

definition add_last_hidden ::
  "'m collaborators \<Rightarrow> args \<Rightarrow> 'm \<Rightarrow> datapoint list \<Rightarrow> datapoint list \<Rightarrow> 'm run_state
     \<Rightarrow> py_error + 'm run_state"
where
  "add_last_hidden env a m val_data test_data rs =
     (if confidence a = Some ''gaussian'' then
        (case sum_last_hidden rs of
           None \<Rightarrow> Inl (UnboundLocalError ''sum_last_hidden'')
         | Some slh \<Rightarrow>
             (case np_iadd slh (predict_last_hidden env m val_data) of
                Inl e \<Rightarrow> Inl e
              | Inr slh2 \<Rightarrow>
                  (case sum_last_hidden_test rs of
                     None \<Rightarrow> Inl (UnboundLocalError ''sum_last_hidden_test'')
                   | Some slt \<Rightarrow>
                       (case np_iadd slt (predict_last_hidden env m test_data) of
                          Inl e \<Rightarrow> Inl e
                        | Inr slt2 \<Rightarrow>
                            Inr (rs\<lparr>sum_last_hidden := Some slh2,
                                    sum_last_hidden_test := Some slt2\<rparr>)))))
      else Inr rs)"

text \<open>Lines 183 to 323: one member of the ensemble.\<close>

definition run_member ::
  "'m collaborators \<Rightarrow> args \<Rightarrow> datapoint list \<Rightarrow> datapoint list \<Rightarrow> nat \<Rightarrow> 'm run_state
     \<Rightarrow> py_error + 'm run_state"
where
  "run_member env a val_data test_data idx rs =
     (case train_member env a val_data idx (train_order rs) (files rs) of
        Inl e \<Rightarrow> Inl e
      | Inr (m, st) \<Rightarrow>
          let test_preds = predict env m test_data;
              rs1 = rs\<lparr>train_order := cur_data st, files := ckpt_files st,
                       member_test_preds := member_test_preds rs @ [test_preds]\<rparr>
          in (case add_test_preds rs1 idx test_preds of
                Inl e \<Rightarrow> Inl e
              | Inr rs2 \<Rightarrow> add_last_hidden env a m val_data test_data rs2))"

fun ensemble_loop ::
  "'m collaborators \<Rightarrow> args \<Rightarrow> datapoint list \<Rightarrow> datapoint list \<Rightarrow> nat list \<Rightarrow> 'm run_state
     \<Rightarrow> py_error + 'm run_state"
where
  "ensemble_loop env a val_data test_data [] rs = Inr rs"
| "ensemble_loop env a val_data test_data (model_idx # rest) rs =
     (case run_member env a val_data test_data model_idx rs of
        Inl e \<Rightarrow> Inl e
      | Inr rs2 \<Rightarrow> ensemble_loop env a val_data test_data rest rs2)"

text \<open>Lines 171 to 180: the accumulators before the first member.\<close>

definition initial_run_state ::
  "args \<Rightarrow> datapoint list \<Rightarrow> datapoint list \<Rightarrow> datapoint list \<Rightarrow> 'm run_state"
where
  "initial_run_state a train_data val_data test_data =
     \<lparr>train_order = train_data,
      files = Map.empty,
      sum_test_preds = np_zeros (length test_data) (num_tasks a),
      all_test_preds =
        replicate (nat (ensemble_size a)) (np_zeros (length test_data) (num_tasks a)),
      sum_last_hidden =
        (if confidence a = Some ''gaussian''
         then Some (np_zeros (length val_data) (last_hidden_size a)) else None),
      sum_last_hidden_test =
        (if confidence a = Some ''gaussian''
         then Some (np_zeros (length test_data) (last_hidden_size a)) else None),
      member_test_preds = []\<rparr>"

section \<open>run_training.py: ensemble evaluation and confidence diagnostics\<close>

text \<open>What the confidence code hands to the plotting functions, by method.\<close>

datatype diagnostic =
    GaussianConfidence "pyfloat list" "pyfloat list"
  | TanimotoConfidence "pyfloat list" "real list list"
  | EnsembleConfidence "pyfloat list list" "real list list"
  | GaussianClassification "pyfloat list" "pyfloat list"

subsection \<open>The similarity method (lines 369 to 388)\<close>

text \<open>\<open>np.dot\<close> of two one-dimensional arrays: ValueError when the lengths differ.\<close>

definition np_dot :: "real list \<Rightarrow> real list \<Rightarrow> py_error + real" where
  "np_dot u v =
     (if length u = length v then Inr (sum_list (map2 (*) u v)) else Inl ValueError)"

text \<open>
  A fingerprint that is a bit vector holds the values 0 and 1 only, as
  \<open>GetMorganFingerprintAsBitVect\<close> converted to an array does.
\<close>

definition bit_vector :: "real list \<Rightarrow> bool" where
  "bit_vector fp = list_all (\<lambda>v. v = 0 \<or> v = 1) fp"

text \<open>A float that is finite and lies between two bounds.\<close>

definition between :: "real \<Rightarrow> real \<Rightarrow> pyfloat \<Rightarrow> bool" where
  "between lo hi v = (case v of Fin r \<Rightarrow> lo \<le> r \<and> r \<le> hi | _ \<Rightarrow> False)"

text \<open>Lines 379 and 380: \<open>dot(fp, sfp) / (fp.sum() + sfp.sum() - dot(fp, sfp))\<close>.\<close>

definition tanimoto :: "real list \<Rightarrow> real list \<Rightarrow> py_error + pyfloat" where
  "tanimoto fp sfp =
     (case np_dot fp sfp of
        Inl e \<Rightarrow> Inl e
      | Inr d \<Rightarrow> Inr (np_divide d (sum_list fp + sum_list sfp - d)))"

text \<open>
  Line 382: \<open>np.abs(avg_test_preds[i] - test_targets[i][0])\<close>, on the row of averaged
  predictions and the row of targets of one test point.
\<close>

definition abs_error :: "real list \<Rightarrow> real option list \<Rightarrow> py_error + real list" where
  "abs_error row tgt =
     (case tgt of
        [] \<Rightarrow> Inl IndexError
      | None # _ \<Rightarrow> Inl TypeError
      | Some t # _ \<Rightarrow> Inr (map (\<lambda>p. \<bar>p - t\<bar>) row))"

text \<open>Lines 377 to 382: the pairs of similarity and error over the training set.\<close>

fun morgan_sims ::
  "real list \<Rightarrow> real list \<Rightarrow> real option list \<Rightarrow> real list list
     \<Rightarrow> py_error + (pyfloat \<times> real list) list"
where
  "morgan_sims fp row tgt [] = Inr []"
| "morgan_sims fp row tgt (sfp # rest) =
     (case tanimoto fp sfp of
        Inl e \<Rightarrow> Inl e
      | Inr tsim \<Rightarrow>
          (case abs_error row tgt of
             Inl e \<Rightarrow> Inl e
           | Inr err \<Rightarrow>
               (case morgan_sims fp row tgt rest of
                  Inl e \<Rightarrow> Inl e
                | Inr sims \<Rightarrow> Inr ((tsim, err) # sims))))"

text \<open>
  \<open>max(pairs, key=lambda x: x[0])\<close>: the first pair whose key no later key exceeds;
  ValueError on the empty list.
\<close>

fun py_max_from :: "pyfloat \<times> 'a \<Rightarrow> (pyfloat \<times> 'a) list \<Rightarrow> pyfloat \<times> 'a" where
  "py_max_from best [] = best"
| "py_max_from best (p # ps) = py_max_from (if f_gt (fst p) (fst best) then p else best) ps"

definition py_max_by_key :: "(pyfloat \<times> 'a) list \<Rightarrow> py_error + pyfloat \<times> 'a" where
  "py_max_by_key ps = (case ps of [] \<Rightarrow> Inl ValueError | p # rest \<Rightarrow> Inr (py_max_from p rest))"

text \<open>
  Lines 374 to 385: the loop over the test points, each given with its row of averaged
  predictions and its row of targets. The result is the lists \<open>x\<close> and \<open>y\<close>.
\<close>

fun tanimoto_loop ::
  "'m collaborators \<Rightarrow> real list list \<Rightarrow> (string \<times> real list \<times> real option list) list
     \<Rightarrow> py_error + pyfloat list \<times> real list list"
where
  "tanimoto_loop env train_smiles_sfp [] = Inr ([], [])"
| "tanimoto_loop env train_smiles_sfp ((s, row, tgt) # rest) =
     (let fp = morgan_fingerprint env (canonical_smiles env s)
      in case morgan_sims fp row tgt train_smiles_sfp of
           Inl e \<Rightarrow> Inl e
         | Inr sims \<Rightarrow>
             (case py_max_by_key sims of
                Inl e \<Rightarrow> Inl e
              | Inr (morgan_sim, error) \<Rightarrow>
                  (case tanimoto_loop env train_smiles_sfp rest of
                     Inl e \<Rightarrow> Inl e
                   | Inr (x, y) \<Rightarrow> Inr (morgan_sim # x, error # y))))"

definition tanimoto_confidence ::
  "'m collaborators \<Rightarrow> string list \<Rightarrow> string list \<Rightarrow> matrix \<Rightarrow> real option list list
     \<Rightarrow> py_error + pyfloat list \<times> real list list"
where
  "tanimoto_confidence env train_smiles test_smiles avg_test_preds test_targets =
     (let train_smiles_sfp = map (morgan_fingerprint env) train_smiles
      in case tanimoto_loop env train_smiles_sfp
                (zip test_smiles (zip avg_test_preds test_targets)) of
           Inl e \<Rightarrow> Inl e
         | Inr (x, y) \<Rightarrow> Inr (map (np_times 10) x, y))"

subsection \<open>The ensemble method (line 391)\<close>

text \<open>
  \<open>np.var\<close> of the values of one cell across the members: the mean of the squared
  deviations from the mean.
\<close>

definition np_var :: "real list \<Rightarrow> pyfloat" where
  "np_var xs =
     (if xs = [] then NaN
      else Fin ((\<Sum>v\<leftarrow>xs. (v - sum_list xs / real (length xs))\<^sup>2) / real (length xs)))"

definition ensemble_cell :: "matrix list \<Rightarrow> nat \<Rightarrow> nat \<Rightarrow> real list" where
  "ensemble_cell slices i t = map (\<lambda>p. p ! i ! t) slices"

definition np_var_axis2 :: "nat \<Rightarrow> nat \<Rightarrow> matrix list \<Rightarrow> pyfloat list list" where
  "np_var_axis2 rows cols slices =
     map (\<lambda>i. map (\<lambda>t. np_var (ensemble_cell slices i t)) [0..<cols]) [0..<rows]"

text \<open>
  \<open>np.abs(avg_test_preds - test_targets)\<close>: TypeError on a missing target, ValueError
  when the shapes differ.
\<close>

definition np_abs_diff :: "matrix \<Rightarrow> real option list list \<Rightarrow> py_error + matrix" where
  "np_abs_diff p tgts =
     (if map length tgts \<noteq> map length p then Inl ValueError
      else if \<exists>row \<in> set tgts. None \<in> set row then Inl TypeError
      else Inr (map2 (map2 (\<lambda>v t. \<bar>v - (case t of None \<Rightarrow> 0 | Some r \<Rightarrow> r)\<bar>)) p tgts))"

definition ensemble_confidence ::
  "nat \<Rightarrow> nat \<Rightarrow> matrix list \<Rightarrow> matrix \<Rightarrow> real option list list
     \<Rightarrow> py_error + pyfloat list list \<times> matrix"
where
  "ensemble_confidence rows cols slices avg_test_preds test_targets =
     (let x = map (map (np_times (- 1))) (np_var_axis2 rows cols slices)
      in case np_abs_diff avg_test_preds test_targets of
           Inl e \<Rightarrow> Inl e
         | Inr y \<Rightarrow> Inr (x, y))"

subsection \<open>The choice of the method (lines 342 to 427)\<close>

datatype confidence_method = Gaussian | Tanimoto | Ensemble

text \<open>The \<open>if\<close>/\<open>elif\<close> chain of lines 343, 369 and 390.\<close>

definition select_method :: "string option \<Rightarrow> confidence_method option" where
  "select_method c =
     (if c = Some ''gaussian'' then Some Gaussian
      else if c = Some ''tanimoto'' then Some Tanimoto
      else if c = Some ''ensemble'' then Some Ensemble
      else None)"

text \<open>
  What the code after the ensemble loop reads: the arguments, the state of the loop, the
  scaler, \<open>train_smiles\<close> (bound in regression runs only), the averaged test predictions
  and the data.
\<close>

record 'm confidence_input =
  ci_state :: "'m run_state"
  ci_scaler :: "standard_scaler option"
  ci_train_smiles :: "string list option"
  ci_avg_test_preds :: matrix
  ci_val_targets :: "real option list list"
  ci_test_smiles :: "string list"
  ci_test_targets :: "real option list list"

text \<open>
  Lines 343 to 393. With a method name that is none of the three, \<open>x\<close> and \<open>y\<close> are
  not bound when line 393 reads them.
\<close>

definition regression_confidence ::
  "'m collaborators \<Rightarrow> args \<Rightarrow> 'm confidence_input \<Rightarrow> py_error + diagnostic"
where
  "regression_confidence env a ci =
     (case select_method (confidence a) of
        Some Gaussian \<Rightarrow>
          (case sum_last_hidden (ci_state ci) of
             None \<Rightarrow> Inl (UnboundLocalError ''sum_last_hidden'')
           | Some slh \<Rightarrow>
               (case sum_last_hidden_test (ci_state ci) of
                  None \<Rightarrow> Inl (UnboundLocalError ''sum_last_hidden_test'')
                | Some slt \<Rightarrow>
                    (case ci_scaler ci of
                       None \<Rightarrow> Inl AttributeError
                     | Some scaler \<Rightarrow>
                         (case gaussian_confidence env
                                 (np_scale_down slh (real_of_int (ensemble_size a)))
                                 (np_scale_down slt (real_of_int (ensemble_size a)))
                                 (ci_val_targets ci) (ci_test_targets ci) scaler of
                            (x, y) \<Rightarrow> Inr (GaussianConfidence x y)))))
      | Some Tanimoto \<Rightarrow>
          (case ci_train_smiles ci of
             None \<Rightarrow> Inl (UnboundLocalError ''train_smiles'')
           | Some train_smiles \<Rightarrow>
               (case tanimoto_confidence env train_smiles (ci_test_smiles ci)
                       (ci_avg_test_preds ci) (ci_test_targets ci) of
                  Inl e \<Rightarrow> Inl e
                | Inr (x, y) \<Rightarrow> Inr (TanimotoConfidence x y)))
      | Some Ensemble \<Rightarrow>
          (case ensemble_confidence (length (ci_test_smiles ci)) (num_tasks a)
                  (all_test_preds (ci_state ci)) (ci_avg_test_preds ci)
                  (ci_test_targets ci) of
             Inl e \<Rightarrow> Inl e
           | Inr (x, y) \<Rightarrow> Inr (EnsembleConfidence x y))
      | None \<Rightarrow> Inl (UnboundLocalError ''x''))"

text \<open>Lines 396 to 427: the accumulators of hidden vectors are read first.\<close>

definition classification_confidence ::
  "'m collaborators \<Rightarrow> args \<Rightarrow> 'm confidence_input \<Rightarrow> py_error + diagnostic"
where
  "classification_confidence env a ci =
     (case sum_last_hidden (ci_state ci) of
        None \<Rightarrow> Inl (UnboundLocalError ''sum_last_hidden'')
      | Some slh \<Rightarrow>
          (case sum_last_hidden_test (ci_state ci) of
             None \<Rightarrow> Inl (UnboundLocalError ''sum_last_hidden_test'')
           | Some slt \<Rightarrow>
               (case gaussian_classification env
                       (np_scale_down slh (real_of_int (ensemble_size a)))
                       (np_scale_down slt (real_of_int (ensemble_size a)))
                       (ci_val_targets ci) (ci_test_targets ci) of
                  (x, y) \<Rightarrow> Inr (GaussianClassification x y))))"

text \<open>Lines 342 and 395: the two guarded blocks, one after the other.\<close>

definition confidence_diagnostics ::
  "'m collaborators \<Rightarrow> args \<Rightarrow> 'm confidence_input \<Rightarrow> py_error + diagnostic option"
where
  "confidence_diagnostics env a ci =
     (case (if truthy (confidence a) \<and> dataset_type a = ''regression''
            then (case regression_confidence env a ci of
                    Inl e \<Rightarrow> Inl e
                  | Inr d \<Rightarrow> Inr (Some d))
            else Inr None) of
        Inl e \<Rightarrow> Inl e
      | Inr shown \<Rightarrow>
          if truthy (confidence a) \<and> dataset_type a = ''classification''
          then (case classification_confidence env a ci of
                  Inl e \<Rightarrow> Inl e
                | Inr d \<Rightarrow> Inr (Some d))
          else Inr shown)"

subsection \<open>run_training\<close>

text \<open>
  Lines 325 to 335 and 342 to 435, on the state the ensemble loop has left: the average
  of the accumulated test predictions, its scores, the diagnostics, and the scores as
  the returned value. After a loop over no member the name \<open>writer\<close> is not bound at
  line 339.
\<close>

definition evaluate_ensemble ::
  "'m collaborators \<Rightarrow> args \<Rightarrow> 'm run_state \<Rightarrow> standard_scaler option \<Rightarrow> string list option
     \<Rightarrow> real option list list \<Rightarrow> string list \<Rightarrow> real option list list
     \<Rightarrow> py_error + pyfloat list \<times> diagnostic option"
where
  "evaluate_ensemble env a rs scaler train_smiles val_targets test_smiles test_targets =
     (if ensemble_size a \<le> 0 then Inl (UnboundLocalError ''writer'')
      else
        let avg_test_preds = np_scale_down (sum_test_preds rs) (real_of_int (ensemble_size a));
            ensemble_scores = evaluate_predictions env avg_test_preds test_targets;
            ci = \<lparr>ci_state = rs, ci_scaler = scaler, ci_train_smiles = train_smiles,
                  ci_avg_test_preds = avg_test_preds, ci_val_targets = val_targets,
                  ci_test_smiles = test_smiles, ci_test_targets = test_targets\<rparr>
        in case confidence_diagnostics env a ci of
             Inl e \<Rightarrow> Inl e
           | Inr shown \<Rightarrow> Inr (ensemble_scores, shown))"

text \<open>
  \<open>run_training\<close> (lines 56 to 435), from the heap of loaded datapoints to the returned
  ensemble scores and the diagnostics shown. Log output, the files of
  \<open>save_smiles_splits\<close>, the normalisation of the features and the scores that are only
  logged are left out. A negative ensemble size makes \<open>np.zeros\<close> raise at line 173.
\<close>

definition run_training ::
  "'m collaborators \<Rightarrow> args \<Rightarrow> heap \<Rightarrow> py_error + pyfloat list \<times> diagnostic option"
where
  "run_training env a h =
     (case select_data env a (get_data env (data_path a)) of
        (train_ids, val_ids, test_ids) \<Rightarrow>
          (case scale_targets env a h train_ids of
             Inl e \<Rightarrow> Inl e
           | Inr (h2, scaler, train_smiles) \<Rightarrow>
               let train_data = dataset h2 train_ids;
                   val_data = dataset h2 val_ids;
                   test_data = dataset h2 test_ids;
                   test_smiles = dataset_smiles h2 test_ids;
                   test_targets = dataset_targets h2 test_ids
               in if ensemble_size a < 0 then Inl ValueError
                  else
                    (case ensemble_loop env a val_data test_data
                            [0..<nat (ensemble_size a)]
                            (initial_run_state a train_data val_data test_data) of
                       Inl e \<Rightarrow> Inl e
                     | Inr rs \<Rightarrow>
                         evaluate_ensemble env a rs scaler train_smiles
                           (dataset_targets h2 val_ids) test_smiles test_targets)))"

section \<open>The mean and the variance across the ensemble, as the claims word them\<close>




section \<open>pred_r2.py: the Pearson coefficient\<close>







section \<open>Concrete collaborators and inputs\<close>

text \<open>
  Small concrete collaborators, used to run the models on explicit inputs. The model is a
  counter of the examples it was fitted on; its validation score and its predictions are
  functions of that counter. \<open>split_data\<close> cuts the list at the fractions of its length
  that the sizes give, and the scaler centres a single task at its mean and divides by
  its mean absolute deviation.
\<close>

definition demo_env :: "nat collaborators" where
  "demo_env =
     \<lparr>get_data = (\<lambda>p. if p = ''val.csv'' then [10, 11]
                      else if p = ''test.csv'' then [20] else [0, 1, 2, 3, 4]),
      split_data = (\<lambda>ds ty (a, b, c) sd.
         (let n = real (length ds);
              train_size = nat \<lfloor>a * n\<rfloor>;
              train_val_size = nat \<lfloor>(a + b) * n\<rfloor>
          in (take train_size ds,
              take (train_val_size - train_size) (drop train_size ds),
              drop train_val_size ds))),
      scaler_fit = (\<lambda>ts.
         (let vs = concat (map (\<lambda>row. case row of Some v # _ \<Rightarrow> [v] | _ \<Rightarrow> []) ts);
              mu = sum_list vs / real (length vs)
          in \<lparr>means = [mu],
              stds = [(\<Sum>v\<leftarrow>vs. \<bar>v - mu\<bar>) / real (length vs)]\<rparr>)),
      scaler_transform = (\<lambda>sc ts.
         map (\<lambda>row. map (\<lambda>(t, m, s). map_option (\<lambda>v. (v - m) / s) t)
                         (zip row (zip (means sc) (stds sc)))) ts),
      shuffle = rev,
      build_model = (\<lambda>i. i),
      load_pretrained = (\<lambda>p. 0),
      fit_batch = (\<lambda>m b. m + length b),
      exponential_lr_step = (\<lambda>m. m),
      evaluate = (\<lambda>m d. [Fin ((real m - 3)\<^sup>2)]),
      predict = (\<lambda>m d. map (\<lambda>x. [real m]) d),
      predict_last_hidden = (\<lambda>m d. map (\<lambda>x. [real m]) d),
      evaluate_predictions = (\<lambda>p t. [Fin (sum_list (map sum_list p))]),
      morgan_fingerprint = (\<lambda>s. if s = ''C'' then [1, 0, 1]
                                else if s = ''CC'' then [1, 1, 0] else [0, 0, 1]),
      canonical_smiles = (\<lambda>s. s),
      gaussian_confidence = (\<lambda>h ht vt tt sc. ([], [])),
      gaussian_classification = (\<lambda>h ht vt tt. ([], []))\<rparr>"

definition demo_args :: args where
  "demo_args =
     \<lparr>dataset_type = ''regression'', confidence = None, ensemble_size = 2, epochs = 3,
      minimize_score = True, batch_size = 2, log_frequency = 10, class_balance = False,
      data_path = ''data.csv'', separate_val_path = None, separate_test_path = None,
      split_type = ''random'', split_sizes = (8 / 10, 1 / 10, 1 / 10), seed = 0,
      checkpoint_paths = None, num_tasks = 1, last_hidden_size = 1\<rparr>"

definition demo_point :: "string \<Rightarrow> real \<Rightarrow> datapoint" where
  "demo_point s t = \<lparr>smiles = s, targets = [Some t]\<rparr>"

definition demo_data :: "datapoint list" where
  "demo_data = [demo_point ''C'' 1, demo_point ''CC'' 3, demo_point ''CCC'' 5]"

text \<open>A heap with five loaded datapoints and three more from separate files.\<close>

definition demo_heap :: heap where
  "demo_heap i =
     (if i = 0 then demo_point ''C'' 0
      else if i = 1 then demo_point ''CC'' 4
      else if i = 2 then demo_point ''CCC'' 0
      else if i = 3 then demo_point ''CCCC'' 4
      else if i = 4 then demo_point ''N'' 6
      else demo_point ''O'' 1)"


section \<open>Properties of train\<close>

lemma py_range_batches:
  assumes "0 < b" and "0 \<le> q"
  shows "py_range 0 (q * b) b = map (\<lambda>k. int k * b) [0..<nat q]"
proof -
  have "q * b + b - 1 = q * b + (b - 1)" by simp
  then have "(q * b + b - 1) div b = q + (b - 1) div b"
    using assms(1) by (simp only: div_mult_self3 [of b q "b - 1"])
  then have "(q * b + b - 1) div b = q"
    using assms(1) by simp
  then show ?thesis using assms(1) by (simp add: py_range_def)
qed

lemma py_slice_in_range:
  assumes "0 \<le> i" and "0 \<le> b" and "i + b \<le> int (length xs)"
  shows "py_slice xs i (i + b) = take (nat b) (drop (nat i) xs)"
  using assms by (simp add: py_slice_def Let_def min_def)

lemma length_py_slice_in_range:
  assumes "0 \<le> i" and "0 \<le> b" and "i + b \<le> int (length xs)"
  shows "int (length (py_slice xs i (i + b))) = b"
  using assms by (simp add: py_slice_in_range)

text \<open>
  The loop invariant: started at the \<open>j\<close>-th batch with \<open>n\<close> whole batches left, the loop
  returns, has added \<open>n\<close> batches of \<open>b\<close> examples each, and has left the order of the
  dataset alone.
\<close>

lemma train_loop_batches:
  assumes "0 < b" and "batch_size a = b" and "log_frequency a \<noteq> 0"
    and "0 \<le> iter_count st" and "int (j + n) * b \<le> int (length dat)"
  shows "\<exists>st'. train_loop env a dat (map (\<lambda>k. int k * b) [j..<j + n]) st = Inr st'
           \<and> n_iter st' = n_iter st + int n * b
           \<and> trained_on st' =
               trained_on st @ map (\<lambda>k. take (nat b) (drop (k * nat b) dat)) [j..<j + n]
           \<and> data_order st' = data_order st
           \<and> 0 \<le> iter_count st'"
  using assms
proof (induction n arbitrary: j st)
  case 0
  then show ?case by simp
next
  case (Suc n)
  let ?i = "int j * b"
  have range: "[j..<j + Suc n] = j # [Suc j..<Suc j + n]"
    by (simp add: upt_conv_Cons)
  have i0: "0 \<le> ?i" using Suc.prems(1) by simp
  have "int (j + Suc n) * b = ?i + b + int n * b" by (simp add: algebra_simps)
  moreover have "0 \<le> int n * b" using Suc.prems(1) by simp
  ultimately have fits: "?i + b \<le> int (length dat)" using Suc.prems(5) by linarith
  let ?batch = "py_slice dat ?i (?i + b)"
  have batch: "?batch = take (nat b) (drop (j * nat b) dat)"
    using py_slice_in_range [OF i0 _ fits] Suc.prems(1) by (simp add: nat_mult_distrib)
  have lb: "int (length ?batch) = b"
    using length_py_slice_in_range [OF i0 _ fits] Suc.prems(1) by simp
  let ?st1 = "st\<lparr>model := fit_batch env (model st) ?batch,
                    iter_count := iter_count st + int (length ?batch),
                    n_iter := n_iter st + int (length ?batch),
                    trained_on := trained_on st @ [?batch]\<rparr>"
  have ic: "iter_count ?st1 \<noteq> 0" using lb Suc.prems(1,4) by simp
  let ?st2 = "?st1\<lparr>iter_count := 0, logged_at := logged_at ?st1 @ [n_iter ?st1]\<rparr>"
  let ?next = "if (n_iter ?st1 div b) mod log_frequency a = 0 then ?st2 else ?st1"
  have step: "train_loop env a dat (map (\<lambda>k. int k * b) [j..<j + Suc n]) st =
                train_loop env a dat (map (\<lambda>k. int k * b) [Suc j..<Suc j + n]) ?next"
    unfolding range using fits Suc.prems(1,2,3) ic
    by (simp add: Let_def del: upt_Suc)
  have nonneg: "0 \<le> iter_count ?next" using lb Suc.prems(1,4) by simp
  have bound: "int (Suc j + n) * b \<le> int (length dat)" using Suc.prems(5) by simp
  from Suc.IH [OF Suc.prems(1,2,3) nonneg bound]
  obtain st' where st':
    "train_loop env a dat (map (\<lambda>k. int k * b) [Suc j..<Suc j + n]) ?next = Inr st'"
    "n_iter st' = n_iter ?next + int n * b"
    "trained_on st' =
       trained_on ?next @ map (\<lambda>k. take (nat b) (drop (k * nat b) dat)) [Suc j..<Suc j + n]"
    "data_order st' = data_order ?next"
    "0 \<le> iter_count st'"
    by blast
  have "n_iter st' = n_iter st + int (Suc n) * b"
    using st'(2) lb by (simp add: algebra_simps)
  moreover have "trained_on st' =
      trained_on st @ map (\<lambda>k. take (nat b) (drop (k * nat b) dat)) [j..<j + Suc n]"
    unfolding range using st'(3) batch by (simp del: upt_Suc)
  moreover have "data_order st' = data_order st" using st'(4) by simp
  ultimately show ?case using step st'(1,5) by (simp del: upt_Suc)
qed

lemma concat_batches:
  "concat (map (\<lambda>k. take b (drop (k * b) xs)) [0..<n]) = take (n * b) xs"
proof (induction n)
  case 0
  then show ?case by simp
next
  case (Suc n)
  have "Suc n * b = n * b + b" by simp
  then have "take (Suc n * b) xs = take (n * b) xs @ take b (drop (n * b) xs)"
    by (simp only: take_add)
  then show ?case using Suc by simp
qed

text \<open>
  Without class balancing, with a batch size of at least one and a nonzero logging
  frequency, \<open>train\<close> returns; the batches it trained on are the first
  \<open>len div b\<close> blocks of \<open>b\<close> examples of the shuffled dataset.
\<close>

lemma train_returns:
  assumes "\<not> class_balance a" and "1 \<le> batch_size a" and "log_frequency a \<noteq> 0"
  shows "\<exists>st. train env a m dat n = Inr st
           \<and> n_iter st =
               n + int (length (shuffle env dat)) div batch_size a * batch_size a
           \<and> trained_on st =
               map (\<lambda>k. take (nat (batch_size a))
                           (drop (k * nat (batch_size a)) (shuffle env dat)))
                 [0..<length (shuffle env dat) div nat (batch_size a)]
           \<and> data_order st = shuffle env dat"
proof -
  let ?b = "batch_size a"
  let ?s = "shuffle env dat"
  let ?q = "int (length ?s) div ?b"
  let ?st0 = "\<lparr>model = m, data_order = ?s, n_iter = n, iter_count = 0,
                trained_on = [], logged_at = []\<rparr>"
  have b: "0 < ?b" using assms(2) by simp
  have q0: "0 \<le> ?q" using b by (simp add: pos_imp_zdiv_nonneg_iff)
  have qn: "nat ?q = length ?s div nat ?b"
    using b by (simp add: nat_div_distrib)
  have "?q * ?b \<le> int (length ?s)"
    using b by (metis mult.commute pos_mod_sign mult_div_mod_eq le_add_same_cancel1)
  then have bound: "int (0 + nat ?q) * ?b \<le> int (length ?s)" using q0 by simp
  have unfold: "train env a m dat n = train_loop env a ?s (py_range 0 (?q * ?b) ?b) ?st0"
    using assms(1) b by (simp add: train_def Let_def)
  have "py_range 0 (?q * ?b) ?b = map (\<lambda>k. int k * ?b) [0..<0 + nat ?q]"
    using py_range_batches [OF b q0] by simp
  moreover from train_loop_batches [OF b refl assms(3) _ bound, of ?st0 env]
  obtain st' where st':
    "train_loop env a ?s (map (\<lambda>k. int k * ?b) [0..<0 + nat ?q]) ?st0 = Inr st'"
    "n_iter st' = n_iter ?st0 + int (nat ?q) * ?b"
    "trained_on st' =
       trained_on ?st0 @ map (\<lambda>k. take (nat ?b) (drop (k * nat ?b) ?s)) [0..<0 + nat ?q]"
    "data_order st' = data_order ?st0"
    by auto
  ultimately have r: "train env a m dat n = Inr st'" using unfold by simp
  have n': "n_iter st' = n + ?q * ?b" using st'(2) q0 by simp
  have t': "trained_on st' =
              map (\<lambda>k. take (nat ?b) (drop (k * nat ?b) ?s)) [0..<length ?s div nat ?b]"
    using st'(3) qn by simp
  have d': "data_order st' = ?s" using st'(4) by simp
  show ?thesis using r n' t' d' by blast
qed

text \<open>
  C7, as amended. With class balancing disabled, a batch size \<open>b\<close> of at least one and a
  logging frequency other than zero, \<open>train\<close> returns, and it has trained on exactly the
  first \<open>(len div b) * b\<close> examples of the (shuffled) dataset in batches of \<open>b\<close>; the
  \<open>len mod b\<close> examples after them are skipped, and the returned \<open>n_iter\<close> is the given
  one plus \<open>(len div b) * b\<close>. The shuffle is a permutation of the dataset.
\<close>

theorem train_whole_batches:
  assumes "\<not> class_balance a" and "1 \<le> batch_size a" and "log_frequency a \<noteq> 0"
    and "mset (shuffle env dat) = mset dat"
  shows "\<exists>st skipped. train env a m dat n = Inr st
           \<and> n_iter st = n + int (length dat) div batch_size a * batch_size a
           \<and> shuffle env dat = concat (trained_on st) @ skipped
           \<and> int (length (concat (trained_on st))) =
               int (length dat) div batch_size a * batch_size a
           \<and> int (length skipped) = int (length dat) mod batch_size a
           \<and> list_all (\<lambda>batch. int (length batch) = batch_size a) (trained_on st)"
proof -
  let ?b = "batch_size a"
  let ?s = "shuffle env dat"
  let ?q = "length ?s div nat ?b"
  have b: "0 < ?b" using assms(2) by simp
  have len: "length ?s = length dat" using assms(4) by (rule mset_eq_length)
  from train_returns [OF assms(1,2,3), of env m dat n]
  obtain st where st:
    "train env a m dat n = Inr st"
    "n_iter st = n + int (length ?s) div ?b * ?b"
    "trained_on st = map (\<lambda>k. take (nat ?b) (drop (k * nat ?b) ?s)) [0..<?q]"
    by blast
  have conc: "concat (trained_on st) = take (?q * nat ?b) ?s"
    unfolding st(3) by (rule concat_batches)
  have qb: "int (?q * nat ?b) = int (length dat) div ?b * ?b"
    using b len by (simp add: zdiv_int)
  have le: "?q * nat ?b \<le> length ?s" by simp
  have l1: "int (length (concat (trained_on st))) = int (length dat) div ?b * ?b"
    using conc le qb by simp
  have "int (length (drop (?q * nat ?b) ?s)) = int (length ?s) - int (?q * nat ?b)"
    using le by simp
  also have "\<dots> = int (length dat) - int (length dat) div ?b * ?b"
    using qb len by simp
  also have "\<dots> = int (length dat) mod ?b"
    by (rule minus_div_mult_eq_mod)
  finally have l2: "int (length (drop (?q * nat ?b) ?s)) = int (length dat) mod ?b" .
  have each: "list_all (\<lambda>batch. int (length batch) = ?b) (trained_on st)"
  proof -
    have "int (length (take (nat ?b) (drop (k * nat ?b) ?s))) = ?b" if "k < ?q" for k
    proof -
      have "Suc k \<le> ?q" using that by simp
      then have "Suc k * nat ?b \<le> ?q * nat ?b" by (rule mult_le_mono1)
      then have "Suc k * nat ?b \<le> length ?s" using le by (rule order_trans)
      moreover have "k * nat ?b + nat ?b = Suc k * nat ?b" by simp
      ultimately have "k * nat ?b + nat ?b \<le> length ?s" by (simp only:)
      then show ?thesis using b by simp
    qed
    then show ?thesis unfolding st(3) by (simp add: list_all_iff)
  qed
  have parts: "?s = concat (trained_on st) @ drop (?q * nat ?b) ?s"
    unfolding conc by simp
  have n2: "n_iter st = n + int (length dat) div ?b * ?b"
    using st(2) len by simp
  show ?thesis
    by (rule exI [of _ st], rule exI [of _ "drop (?q * nat ?b) ?s"])
       (intro conjI st(1) n2 parts l1 l2 each)
qed

theorem train_whole_batches_witness:
  "\<not> class_balance demo_args \<and> 1 \<le> batch_size demo_args \<and> log_frequency demo_args \<noteq> 0
   \<and> mset (shuffle demo_env demo_data) = mset demo_data
   \<and> (\<exists>st skipped. train demo_env demo_args 0 demo_data 7 = Inr st
         \<and> n_iter st = 9
         \<and> shuffle demo_env demo_data = concat (trained_on st) @ skipped
         \<and> int (length (concat (trained_on st))) = 2
         \<and> int (length skipped) = 1
         \<and> list_all (\<lambda>batch. int (length batch) = 2) (trained_on st))"
proof -
  have h1: "\<not> class_balance demo_args" by (simp add: demo_args_def)
  have h2: "1 \<le> batch_size demo_args" by (simp add: demo_args_def)
  have h3: "log_frequency demo_args \<noteq> 0" by (simp add: demo_args_def)
  have h4: "mset (shuffle demo_env demo_data) = mset demo_data" by (simp add: demo_env_def)
  have b: "batch_size demo_args = 2" by (simp add: demo_args_def)
  have l: "length demo_data = 3" by (simp add: demo_data_def)
  show ?thesis
    using train_whole_batches [OF h1 h2 h3 h4, of 0 7] h1 h2 h3 h4 by (simp add: b l)
qed

text \<open>
  The claim as stated fails when the logging frequency is zero: the test of line 131
  divides by it after the first batch.
\<close>

theorem train_log_frequency_zero_counterexample:
  "\<not> class_balance (demo_args\<lparr>log_frequency := 0\<rparr>)
   \<and> 1 \<le> batch_size (demo_args\<lparr>log_frequency := 0\<rparr>)
   \<and> train demo_env (demo_args\<lparr>log_frequency := 0\<rparr>) 0 demo_data 7 = Inl ZeroDivisionError"
  by (simp add: train_def demo_args_def demo_env_def demo_data_def py_range_def py_slice_def
      Let_def)

section \<open>Properties of the data selection\<close>

lemma select_data_separate_val:
  assumes "truthy (separate_val_path a)" and "\<not> truthy (separate_test_path a)"
  shows "snd (snd (select_data env a dat)) =
           snd (snd (split_data env dat (split_type a) (8 / 10, 2 / 10, 0) (seed a)))"
  using assms by (simp add: select_data_def split: prod.splits)

text \<open>
  C3, on the code as it is. With a separate validation file and no separate test file,
  the test set is the third portion of a split whose fractions are 0.8, 0.2 and 0.0
  (lemma \<open>select_data_separate_val\<close>). With a \<open>split_data\<close> that cuts the data at these
  fractions, the five loaded datapoints give a test set without any datapoint, and the
  ensemble is evaluated on no prediction at all.
\<close>

theorem separate_val_gives_empty_test_set:
  "get_data demo_env (data_path demo_args) = [0, 1, 2, 3, 4]
   \<and> select_data demo_env (demo_args\<lparr>separate_val_path := Some ''val.csv''\<rparr>)
         (get_data demo_env (data_path demo_args)) = ([0, 1, 2, 3], [10, 11], [])
   \<and> run_training demo_env (demo_args\<lparr>separate_val_path := Some ''val.csv''\<rparr>) demo_heap
       = Inr ([Fin 0], None)"
  by code_simp

section \<open>Properties of the target scaling\<close>

lemma write_targets_other: "i \<notin> set ids \<Longrightarrow> write_targets h ids ts i = h i"
proof (induction ids arbitrary: h ts)
  case Nil
  then show ?case by simp
next
  case (Cons j ids)
  then show ?case by (cases ts) simp_all
qed

lemma write_targets_smiles: "smiles (write_targets h ids ts i) = smiles (h i)"
proof (induction ids arbitrary: h ts)
  case Nil
  then show ?case by simp
next
  case (Cons j ids)
  show ?case
  proof (cases ts)
    case Nil
    then show ?thesis by simp
  next
    case (Cons t rest)
    have "smiles (write_targets (h(j := (h j)\<lparr>targets := t\<rparr>)) ids rest i) =
            smiles ((h(j := (h j)\<lparr>targets := t\<rparr>)) i)"
      by (rule Cons.IH)
    then show ?thesis using Cons by simp
  qed
qed

lemma write_targets_written:
  "distinct ids \<Longrightarrow> length ids = length ts \<Longrightarrow> k < length ids \<Longrightarrow>
   targets (write_targets h ids ts (ids ! k)) = ts ! k"
proof (induction ids arbitrary: h ts k)
  case Nil
  then show ?case by simp
next
  case (Cons j ids)
  then obtain t rest where ts: "ts = t # rest" by (cases ts) auto
  show ?case
  proof (cases k)
    case 0
    then show ?thesis using Cons.prems ts by (simp add: write_targets_other)
  next
    case (Suc k')
    have "targets (write_targets (h(j := (h j)\<lparr>targets := t\<rparr>)) ids rest (ids ! k')) =
            rest ! k'"
      using Cons.prems ts Suc by (intro Cons.IH) simp_all
    then show ?thesis using ts Suc by simp
  qed
qed

lemma dataset_targets_written:
  assumes "distinct ids" and "length ids = length ts"
  shows "dataset_targets (write_targets h ids ts) ids = ts"
  using assms by (auto simp: dataset_targets_def list_eq_iff_nth_eq write_targets_written)

lemma dataset_unwritten:
  assumes "set other \<inter> set ids = {}"
  shows "dataset (write_targets h ids ts) other = dataset h other"
proof -
  have "write_targets h ids ts i = h i" if "i \<in> set other" for i
    using that assms by (intro write_targets_other) auto
  then show ?thesis by (simp add: dataset_def)
qed

text \<open>
  C6. In a regression run the scaler is fitted on the training targets alone and the
  targets of the training datapoints become the transformed training targets; every
  datapoint outside the training set, so the whole validation and test sets, is as
  before, and the smiles of every datapoint are as before. In any other run nothing is
  changed and the scaler is \<open>None\<close>. The training set holds each of its datapoints
  once and shares none with the validation and test sets, and the scaler returns one
  row for each row it is given.
\<close>

theorem scale_targets_frame:
  assumes "distinct train_data"
    and "set val_data \<inter> set train_data = {}"
    and "set test_data \<inter> set train_data = {}"
    and "\<forall>sc ts. length (scaler_transform env sc ts) = length ts"
  shows "(dataset_type a = ''regression'' \<longrightarrow>
            (\<exists>h2. scale_targets env a h train_data =
                     Inr (h2, Some (scaler_fit env (dataset_targets h train_data)),
                          Some (dataset_smiles h train_data))
                 \<and> dataset_targets h2 train_data =
                     scaler_transform env (scaler_fit env (dataset_targets h train_data))
                       (dataset_targets h train_data)
                 \<and> dataset h2 val_data = dataset h val_data
                 \<and> dataset h2 test_data = dataset h test_data
                 \<and> (\<forall>i. i \<notin> set train_data \<longrightarrow> h2 i = h i)
                 \<and> (\<forall>i. smiles (h2 i) = smiles (h i))))
       \<and> (dataset_type a \<noteq> ''regression'' \<longrightarrow>
            scale_targets env a h train_data = Inr (h, None, None))"
proof (intro conjI impI)
  assume reg: "dataset_type a = ''regression''"
  let ?tt = "dataset_targets h train_data"
  let ?sc = "scaler_fit env ?tt"
  let ?ts = "scaler_transform env ?sc ?tt"
  let ?h2 = "write_targets h train_data ?ts"
  have len: "length train_data = length ?ts"
    using assms(4) by (simp add: dataset_targets_def)
  have run: "scale_targets env a h train_data =
               Inr (?h2, Some ?sc, Some (dataset_smiles h train_data))"
    using reg len by (simp add: scale_targets_def set_targets_def Let_def)
  have t: "dataset_targets ?h2 train_data = ?ts"
    using assms(1) len by (rule dataset_targets_written)
  have v: "dataset ?h2 val_data = dataset h val_data"
    using assms(2) by (rule dataset_unwritten)
  have e: "dataset ?h2 test_data = dataset h test_data"
    using assms(3) by (rule dataset_unwritten)
  have o: "\<forall>i. i \<notin> set train_data \<longrightarrow> ?h2 i = h i"
    by (simp add: write_targets_other)
  have s: "\<forall>i. smiles (?h2 i) = smiles (h i)"
    by (simp add: write_targets_smiles)
  show "\<exists>h2. scale_targets env a h train_data =
               Inr (h2, Some ?sc, Some (dataset_smiles h train_data))
             \<and> dataset_targets h2 train_data = ?ts
             \<and> dataset h2 val_data = dataset h val_data
             \<and> dataset h2 test_data = dataset h test_data
             \<and> (\<forall>i. i \<notin> set train_data \<longrightarrow> h2 i = h i)
             \<and> (\<forall>i. smiles (h2 i) = smiles (h i))"
    by (rule exI [of _ ?h2]) (intro conjI run t v e o s)
next
  assume "dataset_type a \<noteq> ''regression''"
  then show "scale_targets env a h train_data = Inr (h, None, None)"
    by (simp add: scale_targets_def)
qed

theorem scale_targets_frame_witness:
  "distinct [0, 1, 2, 3 :: nat]
   \<and> set [10, 11] \<inter> set [0, 1, 2, 3 :: nat] = {}
   \<and> set [4] \<inter> set [0, 1, 2, 3 :: nat] = {}
   \<and> (\<forall>sc ts. length (scaler_transform demo_env sc ts) = length ts)
   \<and> (\<exists>h2. scale_targets demo_env demo_args demo_heap [0, 1, 2, 3] =
               Inr (h2, Some \<lparr>means = [2], stds = [2]\<rparr>,
                    Some [''C'', ''CC'', ''CCC'', ''CCCC''])
           \<and> dataset_targets h2 [0, 1, 2, 3] =
               [[Some (- 1)], [Some 1], [Some (- 1)], [Some 1]]
           \<and> dataset h2 [10, 11] = dataset demo_heap [10, 11]
           \<and> dataset h2 [4] = dataset demo_heap [4])
   \<and> scale_targets demo_env (demo_args\<lparr>dataset_type := ''classification''\<rparr>) demo_heap
         [0, 1, 2, 3] = Inr (demo_heap, None, None)"
proof -
  have h1: "distinct [0, 1, 2, 3 :: nat]" by simp
  have h2: "set [10, 11] \<inter> set [0, 1, 2, 3 :: nat] = {}" by simp
  have h3: "set [4] \<inter> set [0, 1, 2, 3 :: nat] = {}" by simp
  have h4: "\<forall>sc ts. length (scaler_transform demo_env sc ts) = length ts"
    by (simp add: demo_env_def)
  have reg: "dataset_type demo_args = ''regression''" by (simp add: demo_args_def)
  have fit: "scaler_fit demo_env (dataset_targets demo_heap [0, 1, 2, 3]) =
               \<lparr>means = [2], stds = [2]\<rparr>"
    by code_simp
  have tr: "scaler_transform demo_env \<lparr>means = [2], stds = [2]\<rparr>
              (dataset_targets demo_heap [0, 1, 2, 3]) =
               [[Some (- 1)], [Some 1], [Some (- 1)], [Some 1]]"
    by code_simp
  have sm: "dataset_smiles demo_heap [0, 1, 2, 3] = [''C'', ''CC'', ''CCC'', ''CCCC'']"
    by code_simp
  have "\<exists>h2. scale_targets demo_env demo_args demo_heap [0, 1, 2, 3] =
               Inr (h2, Some \<lparr>means = [2], stds = [2]\<rparr>,
                    Some [''C'', ''CC'', ''CCC'', ''CCCC''])
           \<and> dataset_targets h2 [0, 1, 2, 3] =
               [[Some (- 1)], [Some 1], [Some (- 1)], [Some 1]]
           \<and> dataset h2 [10, 11] = dataset demo_heap [10, 11]
           \<and> dataset h2 [4] = dataset demo_heap [4]"
    using scale_targets_frame [OF h1 h2 h3 h4, of demo_args demo_heap] reg
    unfolding fit tr sm by blast
  moreover have "scale_targets demo_env (demo_args\<lparr>dataset_type := ''classification''\<rparr>)
                   demo_heap [0, 1, 2, 3] = Inr (demo_heap, None, None)"
    using scale_targets_frame [OF h1 h2 h3 h4,
        of "demo_args\<lparr>dataset_type := ''classification''\<rparr>" demo_heap]
    by simp
  ultimately show ?thesis using h1 h2 h3 h4 by blast
qed

section \<open>Properties of the training of one member\<close>














section \<open>Properties of the ensemble loop\<close>










text \<open>What a returning run has gone through.\<close>

lemma run_training_stages:
  assumes "run_training env a h = Inr (scores, shown)"
    and "select_data env a (get_data env (data_path a)) = (train_ids, val_ids, test_ids)"
  shows "\<exists>h2 scaler ts rs.
           scale_targets env a h train_ids = Inr (h2, scaler, ts)
         \<and> 0 < ensemble_size a
         \<and> ensemble_loop env a (dataset h2 val_ids) (dataset h2 test_ids)
               [0..<nat (ensemble_size a)]
               (initial_run_state a (dataset h2 train_ids) (dataset h2 val_ids)
                  (dataset h2 test_ids)) = Inr rs
         \<and> evaluate_ensemble env a rs scaler ts (dataset_targets h2 val_ids)
               (dataset_smiles h2 test_ids) (dataset_targets h2 test_ids)
             = Inr (scores, shown)"
proof -
  from assms obtain h2 scaler ts where sc:
    "scale_targets env a h train_ids = Inr (h2, scaler, ts)"
    by (auto simp: run_training_def split: sum.splits)
  let ?loop = "ensemble_loop env a (dataset h2 val_ids) (dataset h2 test_ids)
                 [0..<nat (ensemble_size a)]
                 (initial_run_state a (dataset h2 train_ids) (dataset h2 val_ids)
                    (dataset h2 test_ids))"
  from assms sc have nonneg: "\<not> ensemble_size a < 0"
    by (auto simp: run_training_def Let_def split: if_splits)
  with assms sc obtain rs where rs: "?loop = Inr rs"
    by (auto simp: run_training_def Let_def split: sum.splits)
  with assms sc nonneg have ev:
    "evaluate_ensemble env a rs scaler ts (dataset_targets h2 val_ids)
       (dataset_smiles h2 test_ids) (dataset_targets h2 test_ids) = Inr (scores, shown)"
    by (simp add: run_training_def Let_def)
  then have "0 < ensemble_size a"
    by (auto simp: evaluate_ensemble_def split: if_splits)
  then show ?thesis using sc rs ev by blast
qed



subsection \<open>Runs that return\<close>










section \<open>Properties of the confidence diagnostics\<close>










subsection \<open>The accumulators of hidden vectors\<close>

lemma run_member_keeps_last_hidden:
  assumes "confidence a \<noteq> Some ''gaussian''"
    and "run_member env a val_data test_data idx rs = Inr rs2"
  shows "sum_last_hidden rs2 = sum_last_hidden rs"
  using assms
  by (auto simp: run_member_def add_test_preds_def add_last_hidden_def Let_def
           split: sum.splits prod.splits if_splits)

lemma ensemble_loop_keeps_last_hidden:
  assumes "confidence a \<noteq> Some ''gaussian''"
    and "ensemble_loop env a val_data test_data idxs rs = Inr rs2"
  shows "sum_last_hidden rs2 = sum_last_hidden rs"
  using assms(2)
proof (induction idxs arbitrary: rs)
  case Nil
  then show ?case by simp
next
  case (Cons idx idxs)
  then obtain rs1 where r1: "run_member env a val_data test_data idx rs = Inr rs1"
    and rest: "ensemble_loop env a val_data test_data idxs rs1 = Inr rs2"
    by (auto split: sum.splits)
  show ?case
    using Cons.IH [OF rest] run_member_keeps_last_hidden [OF assms(1) r1] by simp
qed

text \<open>
  With a confidence method other than \<open>gaussian\<close>, line 176 binds no accumulator and
  the loop binds none; a classification run then never returns: when it reaches line
  398 it reads \<open>sum_last_hidden\<close> unbound.
\<close>

lemma classification_confidence_never_returns:
  assumes "dataset_type a = ''classification''" and "truthy (confidence a)"
    and "confidence a \<noteq> Some ''gaussian''"
  shows "\<exists>e. run_training env a h = Inl e"
proof (cases "run_training env a h")
  case (Inl e)
  then show ?thesis by blast
next
  case (Inr r)
  obtain scores shown where r: "r = (scores, shown)" by (cases r) auto
  obtain train_ids val_ids test_ids where
    sel: "select_data env a (get_data env (data_path a)) = (train_ids, val_ids, test_ids)"
    by (cases "select_data env a (get_data env (data_path a))") auto
  from Inr r have ret: "run_training env a h = Inr (scores, shown)" by simp
  from run_training_stages [OF ret sel]
  obtain h2 scaler ts rs where st:
    "ensemble_loop env a (dataset h2 val_ids) (dataset h2 test_ids)
       [0..<nat (ensemble_size a)]
       (initial_run_state a (dataset h2 train_ids) (dataset h2 val_ids)
          (dataset h2 test_ids)) = Inr rs"
    "evaluate_ensemble env a rs scaler ts (dataset_targets h2 val_ids)
       (dataset_smiles h2 test_ids) (dataset_targets h2 test_ids) = Inr (scores, shown)"
    by blast
  have "sum_last_hidden rs = None"
    using ensemble_loop_keeps_last_hidden [OF assms(3) st(1)] assms(3)
    by (simp add: initial_run_state_def)
  then have "\<exists>e. evaluate_ensemble env a rs scaler ts (dataset_targets h2 val_ids)
                   (dataset_smiles h2 test_ids) (dataset_targets h2 test_ids) = Inl e"
    using assms(1,2)
    by (simp add: evaluate_ensemble_def confidence_diagnostics_def
        classification_confidence_def Let_def)
  then show ?thesis using st(2) by simp
qed

text \<open>
  C5, on the code as it is. With the similarity method in a classification run the two
  accumulators are not bound before the loop, and the run ends at line 398 with the
  error for the unbound name.
\<close>

theorem classification_reads_unbound_accumulator:
  "truthy (confidence (demo_args\<lparr>dataset_type := ''classification'',
                                  confidence := Some ''tanimoto''\<rparr>))
   \<and> sum_last_hidden
        (initial_run_state
           (demo_args\<lparr>dataset_type := ''classification'', confidence := Some ''tanimoto''\<rparr>)
           (dataset demo_heap [0, 1, 2, 3]) [] (dataset demo_heap [4]) :: nat run_state)
       = None
   \<and> run_training demo_env
       (demo_args\<lparr>dataset_type := ''classification'', confidence := Some ''tanimoto''\<rparr>)
       demo_heap = Inl (UnboundLocalError ''sum_last_hidden'')"
  by code_simp

section \<open>Properties of the similarity method\<close>

lemma bit_vector_Cons [simp]:
  "bit_vector (v # fp) \<longleftrightarrow> (v = 0 \<or> v = 1) \<and> bit_vector fp"
  by (simp add: bit_vector_def)

lemma bit_vector_Nil [simp]: "bit_vector []"
  by (simp add: bit_vector_def)

lemma bits_sum_nonneg: "bit_vector fp \<Longrightarrow> 0 \<le> sum_list fp"
  by (induction fp) auto

lemma bits_sum_pos: "bit_vector fp \<Longrightarrow> 1 \<in> set fp \<Longrightarrow> 1 \<le> sum_list fp"
proof (induction fp)
  case Nil
  then show ?case by simp
next
  case (Cons v fp)
  then show ?case using bits_sum_nonneg [of fp] by auto
qed

lemma bits_dot_bounds:
  "length u = length v \<Longrightarrow> bit_vector u \<Longrightarrow> bit_vector v \<Longrightarrow>
   0 \<le> sum_list (map2 (*) u v)
   \<and> sum_list (map2 (*) u v) \<le> sum_list u
   \<and> sum_list (map2 (*) u v) \<le> sum_list v"
proof (induction u v rule: list_induct2)
  case Nil
  then show ?case by simp
next
  case (Cons a u b v)
  then show ?case by auto
qed

lemma tanimoto_unit_interval:
  assumes "bit_vector fp" and "bit_vector sfp" and "length fp = length sfp"
    and "1 \<in> set fp \<or> 1 \<in> set sfp"
  shows "\<exists>t. tanimoto fp sfp = Inr (Fin t) \<and> 0 \<le> t \<and> t \<le> 1"
proof -
  let ?d = "sum_list (map2 (*) fp sfp)"
  let ?n = "sum_list fp + sum_list sfp - ?d"
  have d: "0 \<le> ?d" "?d \<le> sum_list fp" "?d \<le> sum_list sfp"
    using bits_dot_bounds [OF assms(3,1,2)] by simp_all
  have "1 \<le> sum_list fp \<or> 1 \<le> sum_list sfp"
    using assms(1,2,4) bits_sum_pos by blast
  moreover have "0 \<le> sum_list fp" "0 \<le> sum_list sfp"
    using assms(1,2) by (simp_all add: bits_sum_nonneg)
  ultimately have n: "1 \<le> ?n" using d by linarith
  have le: "?d \<le> ?n" using d \<open>0 \<le> sum_list fp\<close> by linarith
  have "tanimoto fp sfp = Inr (Fin (?d / ?n))"
    using assms(3) n by (simp add: tanimoto_def np_dot_def np_divide_def)
  moreover have "0 \<le> ?d / ?n" using d(1) n by simp
  moreover have "?d / ?n \<le> 1" using le n by simp
  ultimately show ?thesis by blast
qed

lemma morgan_sims_unit_interval:
  assumes "bit_vector fp"
    and "\<forall>sfp \<in> set sfps. bit_vector sfp \<and> length sfp = length fp \<and> (1 \<in> set fp \<or> 1 \<in> set sfp)"
    and "abs_error row tgt = Inr err"
  shows "\<exists>sims. morgan_sims fp row tgt sfps = Inr sims
           \<and> length sims = length sfps
           \<and> (\<forall>p \<in> set sims. between 0 1 (fst p))"
  using assms(2)
proof (induction sfps)
  case Nil
  then show ?case by simp
next
  case (Cons sfp sfps)
  from Cons.prems obtain t where t: "tanimoto fp sfp = Inr (Fin t)" "0 \<le> t" "t \<le> 1"
    using tanimoto_unit_interval [of fp sfp] assms(1) by auto
  from Cons obtain sims where sims: "morgan_sims fp row tgt sfps = Inr sims"
    "length sims = length sfps" "\<forall>p \<in> set sims. between 0 1 (fst p)"
    by auto
  have "morgan_sims fp row tgt (sfp # sfps) = Inr ((Fin t, err) # sims)"
    using t(1) sims(1) assms(3) by simp
  moreover have "between 0 1 (Fin t)" using t(2,3) by (simp add: between_def)
  ultimately show ?case using sims(2,3) by simp
qed

lemma py_max_from_member: "py_max_from best ps \<in> set (best # ps)"
proof (induction ps arbitrary: best)
  case Nil
  then show ?case by simp
next
  case (Cons p ps)
  have "py_max_from (if f_gt (fst p) (fst best) then p else best) ps
          \<in> set ((if f_gt (fst p) (fst best) then p else best) # ps)"
    by (rule Cons.IH)
  then show ?case by (auto split: if_splits)
qed

lemma py_max_by_key_member:
  "\<exists>p. py_max_by_key ps = Inr p \<and> p \<in> set ps" if "ps \<noteq> []"
proof (cases ps)
  case Nil
  then show ?thesis using that by simp
next
  case (Cons q rest)
  then show ?thesis using py_max_from_member [of q rest] by (simp add: py_max_by_key_def)
qed

lemma tanimoto_loop_unit_interval:
  assumes "sfps \<noteq> []"
    and "\<forall>(s, row, tgt) \<in> set points.
           bit_vector (morgan_fingerprint env (canonical_smiles env s))
           \<and> (\<exists>t rest. tgt = Some t # rest)
           \<and> (\<forall>sfp \<in> set sfps.
                 bit_vector sfp
                 \<and> length sfp = length (morgan_fingerprint env (canonical_smiles env s))
                 \<and> (1 \<in> set (morgan_fingerprint env (canonical_smiles env s)) \<or> 1 \<in> set sfp))"
  shows "\<exists>x y. tanimoto_loop env sfps points = Inr (x, y)
           \<and> length x = length points
           \<and> (\<forall>v \<in> set x. between 0 1 v)"
  using assms(2)
proof (induction points)
  case Nil
  then show ?case by simp
next
  case (Cons pt points)
  obtain s row tgt where pt: "pt = (s, row, tgt)" by (cases pt) auto
  let ?fp = "morgan_fingerprint env (canonical_smiles env s)"
  from Cons.prems pt have fp: "bit_vector ?fp"
    and tgt: "\<exists>t rest. tgt = Some t # rest"
    and sf: "\<forall>sfp \<in> set sfps. bit_vector sfp \<and> length sfp = length ?fp
               \<and> (1 \<in> set ?fp \<or> 1 \<in> set sfp)"
    by auto
  from tgt obtain err where err: "abs_error row tgt = Inr err"
    by (auto simp: abs_error_def)
  from morgan_sims_unit_interval [OF fp sf err]
  obtain sims where sims: "morgan_sims ?fp row tgt sfps = Inr sims"
    "length sims = length sfps" "\<forall>p \<in> set sims. between 0 1 (fst p)"
    by blast
  have "sims \<noteq> []" using sims(2) assms(1) by auto
  then obtain p where p: "py_max_by_key sims = Inr p" "p \<in> set sims"
    using py_max_by_key_member by blast
  obtain morgan_sim error where me: "p = (morgan_sim, error)" by (cases p) auto
  have ms: "between 0 1 morgan_sim" using sims(3) p(2) me by auto
  from Cons obtain x y where xy: "tanimoto_loop env sfps points = Inr (x, y)"
    "length x = length points" "\<forall>v \<in> set x. between 0 1 v"
    by auto
  have "tanimoto_loop env sfps (pt # points) = Inr (morgan_sim # x, error # y)"
    using pt sims(1) p(1) me xy(1) by (simp add: Let_def)
  then show ?case using ms xy(2,3) by simp
qed

lemma np_times_between:
  "between 0 1 v \<Longrightarrow> between 0 10 (np_times 10 v)"
  by (cases v) (simp_all add: between_def np_times_def)

text \<open>
  C8. For two bit vectors of the same length with a set bit in one of them, the
  similarity of lines 379 and 380 is a finite value between 0 and 1. So, when all the
  fingerprints are bit vectors of one length, every test fingerprint and training
  fingerprint have a set bit between them, the training set is not empty and the first
  target of every test point is present, the similarity method returns, with one
  confidence value for each test point, each between 0 and 10. Values are exact reals;
  the rounding of the floating-point division is outside the model.
\<close>

theorem tanimoto_confidence_in_range:
  assumes "bit_vector fp" and "bit_vector sfp" and "length fp = length sfp"
    and "1 \<in> set fp \<or> 1 \<in> set sfp"
    and "train_smiles \<noteq> []"
    and "length avg_test_preds = length test_smiles"
    and "length test_targets = length test_smiles"
    and "\<forall>tgt \<in> set test_targets. \<exists>t rest. tgt = Some t # rest"
    and "\<forall>s \<in> set test_smiles. bit_vector (morgan_fingerprint env (canonical_smiles env s))"
    and "\<forall>s \<in> set test_smiles. \<forall>s' \<in> set train_smiles.
           bit_vector (morgan_fingerprint env s')
           \<and> length (morgan_fingerprint env s') =
               length (morgan_fingerprint env (canonical_smiles env s))
           \<and> (1 \<in> set (morgan_fingerprint env (canonical_smiles env s))
                \<or> 1 \<in> set (morgan_fingerprint env s'))"
  shows "(\<exists>t. tanimoto fp sfp = Inr (Fin t) \<and> 0 \<le> t \<and> t \<le> 1)
       \<and> (\<exists>x y. tanimoto_confidence env train_smiles test_smiles avg_test_preds test_targets
                   = Inr (x, y)
               \<and> length x = length test_smiles
               \<and> (\<forall>v \<in> set x. between 0 10 v))"
proof
  show "\<exists>t. tanimoto fp sfp = Inr (Fin t) \<and> 0 \<le> t \<and> t \<le> 1"
    using assms(1-4) by (rule tanimoto_unit_interval)
next
  let ?sfps = "map (morgan_fingerprint env) train_smiles"
  let ?points = "zip test_smiles (zip avg_test_preds test_targets)"
  have ne: "?sfps \<noteq> []" using assms(5) by simp
  have pts: "\<forall>(s, row, tgt) \<in> set ?points.
           bit_vector (morgan_fingerprint env (canonical_smiles env s))
           \<and> (\<exists>t rest. tgt = Some t # rest)
           \<and> (\<forall>sfp \<in> set ?sfps.
                 bit_vector sfp
                 \<and> length sfp = length (morgan_fingerprint env (canonical_smiles env s))
                 \<and> (1 \<in> set (morgan_fingerprint env (canonical_smiles env s)) \<or> 1 \<in> set sfp))"
  proof (clarify, intro conjI ballI)
    fix s row tgt
    assume mem: "(s, row, tgt) \<in> set ?points"
    then have s: "s \<in> set test_smiles" by (rule set_zip_leftD)
    from mem have "(row, tgt) \<in> set (zip avg_test_preds test_targets)"
      by (rule set_zip_rightD)
    then have tgt: "tgt \<in> set test_targets" by (rule set_zip_rightD)
    show "bit_vector (morgan_fingerprint env (canonical_smiles env s))"
      using assms(9) s by blast
    show "\<exists>t rest. tgt = Some t # rest" using assms(8) tgt by blast
    fix sfp
    assume "sfp \<in> set ?sfps"
    then obtain s' where s': "s' \<in> set train_smiles" "sfp = morgan_fingerprint env s'"
      by auto
    show "bit_vector sfp" using assms(10) s s' by blast
    show "length sfp = length (morgan_fingerprint env (canonical_smiles env s))"
      using assms(10) s s' by blast
    show "1 \<in> set (morgan_fingerprint env (canonical_smiles env s)) \<or> 1 \<in> set sfp"
      using assms(10) s s' by blast
  qed
  from tanimoto_loop_unit_interval [OF ne pts]
  obtain x y where xy: "tanimoto_loop env ?sfps ?points = Inr (x, y)"
    "length x = length ?points" "\<forall>v \<in> set x. between 0 1 v"
    by blast
  have "tanimoto_confidence env train_smiles test_smiles avg_test_preds test_targets =
          Inr (map (np_times 10) x, y)"
    using xy(1) by (simp add: tanimoto_confidence_def)
  moreover have "length (map (np_times 10) x) = length test_smiles"
    using xy(2) assms(6,7) by simp
  moreover have "\<forall>v \<in> set (map (np_times 10) x). between 0 10 v"
    using xy(3) by (auto intro: np_times_between)
  ultimately show "\<exists>x y. tanimoto_confidence env train_smiles test_smiles avg_test_preds
                           test_targets = Inr (x, y)
                       \<and> length x = length test_smiles
                       \<and> (\<forall>v \<in> set x. between 0 10 v)"
    by blast
qed

theorem tanimoto_confidence_in_range_witness:
  "bit_vector [1, 0, 1] \<and> bit_vector [1, 1, 0]
   \<and> length [1, 0, 1 :: real] = length [1, 1, 0 :: real]
   \<and> (1 \<in> set [1, 0, 1 :: real] \<or> 1 \<in> set [1, 1, 0 :: real])
   \<and> [''C'', ''CC''] \<noteq> []
   \<and> length [[3 / 2 :: real]] = length [''CCC'']
   \<and> length [[Some (2 :: real)]] = length [''CCC'']
   \<and> morgan_fingerprint demo_env (canonical_smiles demo_env ''CCC'') = [0, 0, 1]
   \<and> morgan_fingerprint demo_env ''C'' = [1, 0, 1]
   \<and> morgan_fingerprint demo_env ''CC'' = [1, 1, 0]
   \<and> (\<exists>t. tanimoto [1, 0, 1] [1, 1, 0] = Inr (Fin t) \<and> 0 \<le> t \<and> t \<le> 1)
   \<and> (\<exists>x y. tanimoto_confidence demo_env [''C'', ''CC''] [''CCC''] [[3 / 2]] [[Some 2]]
                = Inr (x, y)
            \<and> length x = length [''CCC'']
            \<and> (\<forall>v \<in> set x. between 0 10 v))
   \<and> tanimoto [1, 0, 1] [1, 1, 0] = Inr (Fin (1 / 3))
   \<and> tanimoto_confidence demo_env [''C'', ''CC''] [''CCC''] [[3 / 2]] [[Some 2]]
        = Inr ([Fin 5], [[1 / 2]])"
proof -
  have h1: "bit_vector [1, 0, 1]" by simp
  have h2: "bit_vector [1, 1, 0]" by simp
  have h3: "length [1, 0, 1 :: real] = length [1, 1, 0 :: real]" by simp
  have h4: "1 \<in> set [1, 0, 1 :: real] \<or> 1 \<in> set [1, 1, 0 :: real]" by simp
  have h5: "[''C'', ''CC''] \<noteq> []" by simp
  have h6: "length [[3 / 2 :: real]] = length [''CCC'']" by simp
  have h7: "length [[Some (2 :: real)]] = length [''CCC'']" by simp
  have h8: "\<forall>tgt \<in> set [[Some (2 :: real)]]. \<exists>t rest. tgt = Some t # rest" by simp
  have f1: "morgan_fingerprint demo_env (canonical_smiles demo_env ''CCC'') = [0, 0, 1]"
    by code_simp
  have f2: "morgan_fingerprint demo_env ''C'' = [1, 0, 1]" by code_simp
  have f3: "morgan_fingerprint demo_env ''CC'' = [1, 1, 0]" by code_simp
  have h9: "\<forall>s \<in> set [''CCC''].
              bit_vector (morgan_fingerprint demo_env (canonical_smiles demo_env s))"
    using f1 by simp
  have h10: "\<forall>s \<in> set [''CCC'']. \<forall>s' \<in> set [''C'', ''CC''].
         bit_vector (morgan_fingerprint demo_env s')
         \<and> length (morgan_fingerprint demo_env s') =
             length (morgan_fingerprint demo_env (canonical_smiles demo_env s))
         \<and> (1 \<in> set (morgan_fingerprint demo_env (canonical_smiles demo_env s))
              \<or> 1 \<in> set (morgan_fingerprint demo_env s'))"
    using f1 f2 f3 by simp
  note r = tanimoto_confidence_in_range [OF h1 h2 h3 h4 h5 h6 h7 h8 h9 h10]
  have v1: "tanimoto [1, 0, 1] [1, 1, 0] = Inr (Fin (1 / 3))" by code_simp
  have v2: "tanimoto_confidence demo_env [''C'', ''CC''] [''CCC''] [[3 / 2]] [[Some 2]]
              = Inr ([Fin 5], [[1 / 2]])"
    by code_simp
  show ?thesis
    by (intro conjI h1 h2 h3 h4 h5 h6 h7 f1 f2 f3 conjunct1 [OF r] conjunct2 [OF r] v1 v2)
qed

section \<open>Properties of cal_pccs\<close>






end
